theory Spec2Isabelle
  imports Main "HOL-Library.Sublist" "HOL-Library.AList"
begin


section \<open>Python string primitives used by the executor\<close>

text \<open>
  Strings are byte strings. \<open>str.strip()\<close> without argument removes the ASCII
  whitespace characters: space, tab, line feed, vertical tab, form feed, carriage return.
\<close>

definition isspace :: "char \<Rightarrow> bool" where
  "isspace c \<longleftrightarrow> c \<in> set [CHR '' '', CHR 0x09, CHR 0x0A, CHR 0x0B, CHR 0x0C, CHR 0x0D]"

definition lstrip_py :: "string \<Rightarrow> string" where
  "lstrip_py s = dropWhile isspace s"

definition rstrip_py :: "string \<Rightarrow> string" where
  "rstrip_py s = rev (dropWhile isspace (rev s))"

definition strip_py :: "string \<Rightarrow> string" where
  "strip_py s = rstrip_py (lstrip_py s)"

definition endswith :: "string \<Rightarrow> string \<Rightarrow> bool" where
  "endswith s suf \<longleftrightarrow> suffix suf s"

text \<open>\<open>s.split(sep)\<close> for a one-character separator: never an empty list.\<close>

fun split_py :: "char \<Rightarrow> string \<Rightarrow> string list" where
  "split_py sep [] = [[]]"
| "split_py sep (c # cs) =
     (if c = sep then [] # split_py sep cs
      else (case split_py sep cs of
              [] \<Rightarrow> [[c]]
            | x # xs \<Rightarrow> (c # x) # xs))"

text \<open>
  \<open>s.replace(old, new)\<close>: the occurrences of \<open>old\<close> are found from the left and do not
  overlap; an empty \<open>old\<close> matches before every character and at the end.
\<close>

function replace_py :: "string \<Rightarrow> string \<Rightarrow> string \<Rightarrow> string" where
  "replace_py [] old new = (if old = [] then new else [])"
| "replace_py (c # cs) old new =
     (if old = [] then new @ c # replace_py cs old new
      else if take (length old) (c # cs) = old
           then new @ replace_py (drop (length old) (c # cs)) old new
      else c # replace_py cs old new)"
  by pat_completeness auto
termination
  by (relation "measure (\<lambda>(s, old, new). length s)") auto

section \<open>Executor.extract_setup\<close>

definition extract_setup :: "string \<Rightarrow> string" where
  "extract_setup cmd0 =
     (let cmd1 = strip_py cmd0;
          cmd = (if endswith cmd1 '';'' then butlast cmd1 else cmd1);
          last_bit = last (split_py CHR '';'' cmd);
          setup = replace_py cmd (strip_py last_bit) ''''
      in setup)"

section \<open>The cancellation flag (pilot/workflow/generic.py)\<close>

text \<open>
  Exceptions of the modelled code. \<open>PilotException\<close> carries the code returned by
  \<open>get_error_code()\<close>; \<open>Exception\<close> stands for any exception without a
  handler of its own in the code.
\<close>

datatype exn =
    PilotException int
  | UnboundLocalError
  | AttributeError
  | IndexError
  | KeyError
  | OSError
  | Exception

definition SIGINT :: int where "SIGINT = 2"
definition SIGKILL :: int where "SIGKILL = 9"
definition SIGTERM :: int where "SIGTERM = 15"

text \<open>
  \<open>args.graceful_stop\<close> is a \<open>threading.Event\<close>: a boolean that \<open>set()\<close> makes true
  and \<open>is_set()\<close> reads.
\<close>

record pilot_args =
  graceful_stop :: bool

text \<open>
  \<open>interrupt(args, signum, frame)\<close>. The log line takes the first name in
  \<open>signal.__dict__\<close> whose value is \<open>signum\<close>; element \<open>[0]\<close> of an empty list
  raises, and then the flag is not touched.
\<close>

definition interrupt :: "(string \<times> int) list \<Rightarrow> pilot_args \<Rightarrow> int \<Rightarrow> exn + pilot_args" where
  "interrupt signal_dict a signum =
     (case [v. (v, k) \<leftarrow> signal_dict, k = signum] of
        [] \<Rightarrow> Inl IndexError
      | v # vs \<Rightarrow> Inr (a\<lparr>graceful_stop := True\<rparr>))"

text \<open>
  \<open>run(args)\<close> installs \<open>interrupt\<close> for \<open>SIGINT\<close>. What happens to the flag during a
  run: a \<open>SIGINT\<close> is delivered and the handler runs (an exception raised by the handler
  leaves the flag as it is), or some loop reads the flag with \<open>is_set()\<close>.
\<close>

datatype flag_event = Deliver_SIGINT | Is_set

fun flag_step :: "(string \<times> int) list \<Rightarrow> pilot_args \<Rightarrow> flag_event \<Rightarrow> pilot_args" where
  "flag_step signal_dict a Deliver_SIGINT =
     (case interrupt signal_dict a SIGINT of Inl e \<Rightarrow> a | Inr a' \<Rightarrow> a')"
| "flag_step signal_dict a Is_set = a"

definition flag_run :: "(string \<times> int) list \<Rightarrow> pilot_args \<Rightarrow> flag_event list \<Rightarrow> pilot_args" where
  "flag_run signal_dict a evs = foldl (flag_step signal_dict) a evs"

section \<open>Jobs, processes and the environment of the executor\<close>

text \<open>
  What \<open>execute(..., returnproc=True)\<close> hands back: a \<open>Popen\<close> object with its pid, a
  tuple (with the truth value of its first element), or nothing.
\<close>

datatype handle = NoHandle | TupleHandle bool | Popen nat

text \<open>An entry of \<open>job.utilities\<close>: process handle, launch count, full command.\<close>

type_synonym utility = "handle \<times> nat \<times> string"

text \<open>
  The fields of the job object that the executor reads or writes. The dictionary
  \<open>job.utilities\<close> is an association list in insertion order.
\<close>

record job =
  jobid :: string
  workdir :: string
  state :: string
  pid :: "nat option"
  pgrp :: "nat option"
  job_setup :: string
  jobparams :: string
  piloterrorcodes :: "int list"
  piloterrordiags :: "string list"
  utilities :: "(string \<times> utility) list"
  is_hpo :: bool
  coprocess :: bool
  containerExec :: "string option"

datatype order =
    UTILITY_BEFORE_PAYLOAD
  | UTILITY_WITH_PAYLOAD
  | UTILITY_AFTER_PAYLOAD_STARTED
  | UTILITY_AFTER_PAYLOAD_FINISHED

datatype timing_label = PILOT_PRE_SETUP | PILOT_POST_SETUP | PILOT_PRE_PAYLOAD | PILOT_POST_PAYLOAD

text \<open>
  The calls that leave the executor, in the order they are made. Durations of
  \<open>time.sleep\<close> are in tenths of a second.
\<close>

datatype event =
    Timing timing_label
  | Execute string
  | Launch string
  | LaunchUtility string
  | WriteFile string
  | Chmod string
  | SendState string
  | Sleep nat
  | Killpg nat int
  | Kill nat
  | PostAction string

text \<open>
  The collaborators of the executor, over a world \<open>'w\<close> that every blocking call may
  change: the user plug-in (\<open>pilot.user.<name>.common\<close>), \<open>pilot.util.container.execute\<close>,
  the process and signal calls of \<open>os\<close> and \<open>subprocess\<close>, \<open>time.sleep\<close>, the
  cancellation flag, and the constants of \<open>ErrorCodes\<close>.
  \<^item> \<open>user_get_payload_command\<close> returns the command or raises;
  \<^item> \<open>user_get_utility_commands\<close> returns the command dictionary (\<open>None\<close> for an empty
    or missing one, else its \<open>command\<close> and \<open>args\<close> entries) together with the job
    parameters it leaves in the job, or raises;
  \<^item> \<open>execute\<close> runs a command to its end and returns exit code, stdout and stderr;
  \<^item> \<open>execute_returnproc\<close> starts a command and returns a handle, or raises;
  \<^item> \<open>os_getpgid\<close> is \<open>None\<close> and \<open>os_killpg\<close> is \<open>False\<close> when the call raises;
  \<^item> \<open>proc_poll\<close> is \<open>None\<close> while the process runs, else its exit code.
\<close>

record 'w env =
  user_get_payload_command :: "job \<Rightarrow> 'w \<Rightarrow> (exn + string) \<times> 'w"
  user_get_utility_commands :: "order \<Rightarrow> job \<Rightarrow> 'w \<Rightarrow> (exn + (string \<times> string) option \<times> string) \<times> 'w"
  user_get_utility_command_setup :: "string \<Rightarrow> job \<Rightarrow> 'w \<Rightarrow> string \<times> 'w"
  user_get_utility_command_kill_signal :: "string \<Rightarrow> int"
  user_post_utility_command_action :: "string \<Rightarrow> job \<Rightarrow> 'w \<Rightarrow> 'w"
  execute :: "string \<Rightarrow> job \<Rightarrow> 'w \<Rightarrow> (int \<times> string \<times> string) \<times> 'w"
  execute_returnproc :: "string \<Rightarrow> job \<Rightarrow> 'w \<Rightarrow> (exn + handle) \<times> 'w"
  path_exists :: "string \<Rightarrow> 'w \<Rightarrow> bool"
  os_getpgid :: "nat \<Rightarrow> 'w \<Rightarrow> nat option"
  os_killpg :: "nat \<Rightarrow> int \<Rightarrow> 'w \<Rightarrow> bool \<times> 'w"
  proc_kill :: "nat \<Rightarrow> 'w \<Rightarrow> 'w"
  proc_poll :: "nat \<Rightarrow> 'w \<Rightarrow> int option \<times> 'w"
  time_sleep :: "nat \<Rightarrow> 'w \<Rightarrow> 'w"
  graceful_stop_is_set :: "'w \<Rightarrow> bool"
  PREPROCESSFAILURE :: int
  POSTPROCESSFAILURE :: int
  UNKNOWNPAYLOADFAILURE :: int
  get_error_message :: "int \<Rightarrow> string"

text \<open>
  The state of one \<open>Executor\<close>: its job, the world, the calls made so far, and the entry
  \<open>traces.pilot['error_code']\<close>. The private file names kept by
  \<open>write_utility_output\<close> are read by \<open>rename_log_files\<close> only, which is never called.
\<close>

record 'w executor =
  job :: job
  world :: 'w
  trace :: "event list"
  traces_pilot_error_code :: "int option"

text \<open>A call returns a value or raises; either way the state goes on.\<close>

datatype ('a, 'w) result = Return 'a "'w executor" | Raise exn "'w executor"

definition emit :: "event \<Rightarrow> 'w executor \<Rightarrow> 'w executor" where
  "emit e s = s\<lparr>trace := trace s @ [e]\<rparr>"

definition path_join :: "string \<Rightarrow> string \<Rightarrow> string" where
  "path_join a b =
     (if b \<noteq> [] \<and> hd b = CHR ''/'' then b
      else if a = [] \<or> last a = CHR ''/'' then a @ b
      else a @ ''/'' @ b)"

section \<open>Helpers that are not among the sources\<close>

text \<open>
  Modelled from the spec: \<open>ErrorCodes.add_error_code\<close> (pilot/common/errorcodes.py) is
  missing. The spec says of every recorded failure that "the error code is appended to the
  job's error list", an "ordered list of (error-code, diagnostic-string) pairs". The
  lists it extends are taken as arguments; the diagnostic is the message of the code.
\<close>

definition add_error_code :: "(int \<Rightarrow> string) \<Rightarrow> int \<Rightarrow> int list \<Rightarrow> string list \<Rightarrow> int list \<times> string list" where
  "add_error_code message errorcode pilot_error_codes pilot_error_diags =
     (pilot_error_codes @ [errorcode], pilot_error_diags @ [message errorcode])"

text \<open>
  The statement \<open>job.piloterrorcodes, job.piloterrordiags = errors.add_error_code(err)\<close>
  of the sources: the call passes the code only and stores the returned lists in the job.
\<close>

definition record_error :: "'w env \<Rightarrow> int \<Rightarrow> 'w executor \<Rightarrow> 'w executor" where
  "record_error E err s =
     (case add_error_code (get_error_message E) err
             (piloterrorcodes (job s)) (piloterrordiags (job s)) of
        (codes, diags) \<Rightarrow> s\<lparr>job := (job s)\<lparr>piloterrorcodes := codes, piloterrordiags := diags\<rparr>\<rparr>)"

text \<open>
  Modelled from the spec: \<open>set_pilot_state\<close> (pilot/util/auxiliary.py) is missing. The
  spec says the call "transitions job state" to the given state.
\<close>

definition set_pilot_state :: "string \<Rightarrow> 'w executor \<Rightarrow> 'w executor" where
  "set_pilot_state st s = s\<lparr>job := (job s)\<lparr>state := st\<rparr>\<rparr>"

text \<open>
  \<open>add_to_pilot_timing\<close> and \<open>send_state\<close> return nothing that the executor uses; the
  calls are recorded.
\<close>

definition add_to_pilot_timing :: "timing_label \<Rightarrow> 'w executor \<Rightarrow> 'w executor" where
  "add_to_pilot_timing label s = emit (Timing label) s"

definition send_state :: "'w executor \<Rightarrow> 'w executor" where
  "send_state s = emit (SendState (state (job s))) s"

section \<open>The Executor (pilot/control/payloads/generic.py)\<close>

definition pre_setup :: "'w executor \<Rightarrow> 'w executor" where
  "pre_setup s = add_to_pilot_timing PILOT_PRE_SETUP s"

definition post_setup :: "'w executor \<Rightarrow> 'w executor" where
  "post_setup s = add_to_pilot_timing PILOT_POST_SETUP s"

definition pre_payload :: "'w executor \<Rightarrow> 'w executor" where
  "pre_payload s = add_to_pilot_timing PILOT_PRE_PAYLOAD s"

definition post_payload :: "'w executor \<Rightarrow> 'w executor" where
  "post_payload s = add_to_pilot_timing PILOT_POST_PAYLOAD s"

text \<open>\<open>user.get_utility_commands(order=..., job=job)\<close>, which may rewrite the job parameters.\<close>

definition get_utility_commands :: "'w env \<Rightarrow> order \<Rightarrow> 'w executor \<Rightarrow> ((string \<times> string) option, 'w) result" where
  "get_utility_commands E ord s =
     (case user_get_utility_commands E ord (job s) (world s) of
        (Inl e, w) \<Rightarrow> Raise e (s\<lparr>world := w\<rparr>)
      | (Inr (cmd_dictionary, jp), w) \<Rightarrow>
          Return cmd_dictionary (s\<lparr>job := (job s)\<lparr>jobparams := jp\<rparr>, world := w\<rparr>))"

text \<open>The format \<open>'%s %s' % (command, args)\<close>.\<close>

definition format_cmd :: "string \<times> string \<Rightarrow> string" where
  "format_cmd d = fst d @ '' '' @ snd d"

definition utility_before_payload :: "'w env \<Rightarrow> 'w executor \<Rightarrow> (string, 'w) result" where
  "utility_before_payload E s =
     (case get_utility_commands E UTILITY_BEFORE_PAYLOAD s of
        Raise e s1 \<Rightarrow> Raise e s1
      | Return None s1 \<Rightarrow> Return [] s1
      | Return (Some d) s1 \<Rightarrow> Return (format_cmd d) s1)"

text \<open>
  \<open>utility_with_payload\<close> has no initial \<open>cmd = ""\<close>: without a command dictionary the
  \<open>return cmd\<close> reads an unbound local variable.
\<close>

definition utility_with_payload :: "'w env \<Rightarrow> 'w executor \<Rightarrow> (string, 'w) result" where
  "utility_with_payload E s =
     (case get_utility_commands E UTILITY_WITH_PAYLOAD s of
        Raise e s1 \<Rightarrow> Raise e s1
      | Return None s1 \<Rightarrow> Raise UnboundLocalError s1
      | Return (Some d) s1 \<Rightarrow> Return (format_cmd d) s1)"

definition utility_after_payload_started :: "'w env \<Rightarrow> 'w executor \<Rightarrow> (unit, 'w) result" where
  "utility_after_payload_started E s =
     (case get_utility_commands E UTILITY_AFTER_PAYLOAD_STARTED s of
        Raise e s1 \<Rightarrow> Raise e s1
      | Return None s1 \<Rightarrow> Return () s1
      | Return (Some d) s1 \<Rightarrow>
          (case user_get_utility_command_setup E (fst d) (job s1) (world s1) of
             (utilitycommand, w) \<Rightarrow>
               (let s2 = s1\<lparr>world := w\<rparr> in
                if utilitycommand = [] then Return () s2
                else (case execute_returnproc E utilitycommand (job s2) (world s2) of
                        (Inl e, w2) \<Rightarrow> Return () (emit (LaunchUtility utilitycommand) (s2\<lparr>world := w2\<rparr>))
                      | (Inr proc1, w2) \<Rightarrow>
                          (let s3 = emit (LaunchUtility utilitycommand) (s2\<lparr>world := w2\<rparr>) in
                           Return () (s3\<lparr>job := (job s3)\<lparr>utilities :=
                              AList.update (fst d) (proc1, 1, utilitycommand) (utilities (job s3))\<rparr>\<rparr>))))))"

definition utility_after_payload_finished :: "'w env \<Rightarrow> 'w executor \<Rightarrow> (string, 'w) result" where
  "utility_after_payload_finished E s =
     (case get_utility_commands E UTILITY_AFTER_PAYLOAD_FINISHED s of
        Raise e s1 \<Rightarrow> Raise e s1
      | Return None s1 \<Rightarrow> Return [] s1
      | Return (Some d) s1 \<Rightarrow> Return (format_cmd d) s1)"

text \<open>
  \<open>write_utility_output\<close>: two \<open>write_file\<close> calls; a \<open>PilotException\<close> of either is
  logged and goes no further.
\<close>

definition write_utility_output :: "string \<Rightarrow> string \<Rightarrow> 'w executor \<Rightarrow> 'w executor" where
  "write_utility_output wd step s =
     emit (WriteFile (path_join wd (step @ ''_stderr.txt'')))
       (emit (WriteFile (path_join wd (step @ ''_stdout.txt''))) s)"

definition execute_utility_command :: "'w env \<Rightarrow> string \<Rightarrow> string \<Rightarrow> 'w executor \<Rightarrow> int \<times> 'w executor" where
  "execute_utility_command E cmd label s =
     (case execute E cmd (job s) (world s) of
        ((exit_code, stdout, stderr), w) \<Rightarrow>
          (let s1 = emit (Execute cmd) (s\<lparr>world := w\<rparr>);
               s2 = (if exit_code \<noteq> 0
                     then (let err = (if label = ''preprocess'' then PREPROCESSFAILURE E
                                      else if label = ''postprocess'' then POSTPROCESSFAILURE E
                                      else UNKNOWNPAYLOADFAILURE E)
                           in if exit_code \<noteq> 160 then record_error E err s1 else s1)
                     else s1)
           in (exit_code, write_utility_output (workdir (job s2)) label s2)))"

definition run_payload :: "'w env \<Rightarrow> string \<Rightarrow> 'w executor \<Rightarrow> (nat option, 'w) result" where
  "run_payload E cmd s =
     (case utility_with_payload E (pre_payload s) of
        Raise e s1 \<Rightarrow> Raise e s1
      | Return cmd_with s1 \<Rightarrow>
          (case execute_returnproc E cmd (job s1) (world s1) of
             (Inl e, w) \<Rightarrow> Return None (emit (Launch cmd) (s1\<lparr>world := w\<rparr>))
           | (Inr proc, w) \<Rightarrow>
               (let s2 = emit (Launch cmd) (s1\<lparr>world := w\<rparr>) in
                case proc of
                  TupleHandle first \<Rightarrow> if \<not> first then Return None s2 else Raise AttributeError s2
                | NoHandle \<Rightarrow> Raise AttributeError s2
                | Popen p \<Rightarrow>
                    (let s3 = s2\<lparr>job := (job s2)\<lparr>pid := Some p\<rparr>\<rparr> in
                     case os_getpgid E p (world s3) of
                       None \<Rightarrow> Raise OSError s3
                     | Some g \<Rightarrow>
                         (let s4 = set_pilot_state ''running'' (s3\<lparr>job := (job s3)\<lparr>pgrp := Some g\<rparr>\<rparr>) in
                          case utility_after_payload_started E s4 of
                            Raise e s5 \<Rightarrow> Raise e s5
                          | Return u s5 \<Rightarrow> Return (Some p) s5)))))"

definition get_payload_command :: "'w env \<Rightarrow> 'w executor \<Rightarrow> (string, 'w) result" where
  "get_payload_command E s =
     (case user_get_payload_command E (job s) (world s) of
        (Inr cmd, w) \<Rightarrow> Return cmd (s\<lparr>world := w\<rparr>)
      | (Inl (PilotException code), w) \<Rightarrow>
          (let s1 = record_error E code (post_setup (s\<lparr>world := w\<rparr>)) in
           case piloterrorcodes (job s1) of
             [] \<Rightarrow> Raise IndexError s1
           | c # cs \<Rightarrow> Return [] (s1\<lparr>traces_pilot_error_code := Some c\<rparr>))
      | (Inl e, w) \<Rightarrow> Raise e (s\<lparr>world := w\<rparr>))"

definition run_preprocess :: "'w env \<Rightarrow> 'w executor \<Rightarrow> (int, 'w) result" where
  "run_preprocess E s =
     (case utility_before_payload E s of
        Raise e s1 \<Rightarrow> Raise e s1
      | Return cmd_before_payload s1 \<Rightarrow>
          if cmd_before_payload \<noteq> [] then
            (case execute_utility_command E (job_setup (job s1) @ cmd_before_payload) ''preprocess'' s1 of
               (exit_code, s2) \<Rightarrow>
                 if exit_code = 160 then Return exit_code s2
                 else if exit_code \<noteq> 0 then Return exit_code (record_error E (PREPROCESSFAILURE E) s2)
                 else (let path = path_join (workdir (job s2))
                                    (case containerExec (job s2) of
                                       None \<Rightarrow> ''does_not_exist'' | Some x \<Rightarrow> x)
                       in Return exit_code
                            (if path_exists E path (world s2) then emit (Chmod path) s2 else s2)))
          else Return 0 s1)"

subsection \<open>stop\_utilities\<close>

text \<open>
  The body of the loop for one utility with a handle that counts as true. The signal
  goes to \<open>os.killpg(os.getpgid(utproc.pid), sig)\<close> inside \<open>try\<close>: a handle without
  \<open>pid\<close>, a failing \<open>getpgid\<close> and a failing \<open>killpg\<close> are logged and ignored. The
  hook \<open>post_utility_command_action\<close> follows in every case; the one hook body among
  the sources (\<open>post_memory_monitor_action\<close>) reads the job and copies a file.
\<close>

definition stop_utility :: "'w env \<Rightarrow> string \<Rightarrow> handle \<Rightarrow> 'w executor \<Rightarrow> 'w executor" where
  "stop_utility E utcmd utproc s =
     (let sig = user_get_utility_command_kill_signal E utcmd;
          s1 = (case utproc of
                  Popen p \<Rightarrow>
                    (case os_getpgid E p (world s) of
                       None \<Rightarrow> s
                     | Some g \<Rightarrow>
                         (case os_killpg E g sig (world s) of
                            (ok, w) \<Rightarrow> emit (Killpg g sig) (s\<lparr>world := w\<rparr>)))
                | TupleHandle first \<Rightarrow> s
                | NoHandle \<Rightarrow> s)
      in emit (PostAction utcmd)
           (s1\<lparr>world := user_post_utility_command_action E utcmd (job s1) (world s1)\<rparr>))"

text \<open>\<open>for utcmd in list(self.__job.utilities.keys())\<close>, with the lookup of each key.\<close>

fun stop_utilities_loop :: "'w env \<Rightarrow> string list \<Rightarrow> 'w executor \<Rightarrow> (unit, 'w) result" where
  "stop_utilities_loop E [] s = Return () s"
| "stop_utilities_loop E (utcmd # keys) s =
     (case map_of (utilities (job s)) utcmd of
        None \<Rightarrow> Raise KeyError s
      | Some (utproc, n, c) \<Rightarrow>
          stop_utilities_loop E keys
            (if utproc \<noteq> NoHandle then stop_utility E utcmd utproc s else s))"

definition stop_utilities :: "'w env \<Rightarrow> 'w executor \<Rightarrow> (unit, 'w) result" where
  "stop_utilities E s = stop_utilities_loop E (map fst (utilities (job s))) s"

subsection \<open>wait\_graceful\<close>

definition sleep :: "'w env \<Rightarrow> nat \<Rightarrow> 'w executor \<Rightarrow> 'w executor" where
  "sleep E d s = emit (Sleep d) (s\<lparr>world := time_sleep E d (world s)\<rparr>)"

text \<open>
  \<open>for i in range(n)\<close>: look at the flag; when it is set, send \<open>SIGTERM\<close> to the process
  group of the payload and leave the loop with \<open>breaker = True\<close>; otherwise sleep one
  second.
\<close>

fun flag_checks :: "'w env \<Rightarrow> nat \<Rightarrow> nat \<Rightarrow> 'w executor \<Rightarrow> (bool, 'w) result" where
  "flag_checks E p 0 s = Return False s"
| "flag_checks E p (Suc n) s =
     (if graceful_stop_is_set E (world s) then
        (case os_getpgid E p (world s) of
           None \<Rightarrow> Raise OSError s
         | Some g \<Rightarrow>
             (case os_killpg E g SIGTERM (world s) of
                (ok, w) \<Rightarrow>
                  if ok then Return True (emit (Killpg g SIGTERM) (s\<lparr>world := w\<rparr>))
                  else Raise OSError (emit (Killpg g SIGTERM) (s\<lparr>world := w\<rparr>))))
      else flag_checks E p n (sleep E 10 s))"

text \<open>
  One pass through the body of \<open>while True\<close>. \<open>Inl\<close>: the loop is left with this result;
  \<open>Inr\<close>: the next pass starts with this iteration count, exit code and state.
\<close>

definition wait_cycle ::
  "'w env \<Rightarrow> nat \<Rightarrow> nat \<Rightarrow> int option \<Rightarrow> 'w executor \<Rightarrow>
     (int option, 'w) result + (nat \<times> int option \<times> 'w executor)" where
  "wait_cycle E p iteration exit_code s =
     (case flag_checks E p 60 (sleep E 1 s) of
        Raise e s1 \<Rightarrow> Inl (Raise e s1)
      | Return breaker s1 \<Rightarrow>
          if breaker then
            (let s2 = sleep E 30 s1
             in Inl (Return exit_code (emit (Kill p) (s2\<lparr>world := proc_kill E p (world s2)\<rparr>))))
          else
            (case proc_poll E p (world s1) of
               (polled, w) \<Rightarrow>
                 if polled \<noteq> None then Inl (Return polled (s1\<lparr>world := w\<rparr>))
                 else Inr (iteration + 1, polled, s1\<lparr>world := w\<rparr>)))"

partial_function (option) wait_loop ::
  "'w env \<Rightarrow> nat \<Rightarrow> nat \<Rightarrow> int option \<Rightarrow> 'w executor \<Rightarrow> (int option, 'w) result option" where
  "wait_loop E p iteration exit_code s =
     (case wait_cycle E p iteration exit_code s of
        Inl r \<Rightarrow> Some r
      | Inr (iteration', exit_code', s') \<Rightarrow> wait_loop E p iteration' exit_code' s')"

declare wait_loop.simps [code]

definition wait_graceful :: "'w env \<Rightarrow> nat \<Rightarrow> 'w executor \<Rightarrow> (int option, 'w) result option" where
  "wait_graceful E p s = wait_loop E p 0 None s"

subsection \<open>run\<close>

text \<open>
  The part of the loop body after \<open>wait_graceful\<close> has returned: the state of the job
  from the exit code, the reset of an unset exit code to \<open>-1\<close>, the postprocess command
  when the state is not \<open>failed\<close> (an exception of \<open>utility_after_payload_finished\<close> is
  logged), \<open>post_payload\<close>, and \<open>stop_utilities\<close> when the utility table is not empty.
\<close>

definition after_wait :: "'w env \<Rightarrow> int option \<Rightarrow> 'w executor \<Rightarrow> (int, 'w) result" where
  "after_wait E waited s =
     (let st = (if waited = Some 0 then ''finished'' else ''failed'');
          s1 = set_pilot_state st s;
          exit_code = (case waited of None \<Rightarrow> - 1 | Some c \<Rightarrow> c)
      in case (if st \<noteq> ''failed'' then
                 (case utility_after_payload_finished E s1 of
                    Raise e s2 \<Rightarrow> (exit_code, s2)
                  | Return cmd_after_payload s2 \<Rightarrow>
                      if cmd_after_payload \<noteq> [] then
                        execute_utility_command E (job_setup (job s2) @ cmd_after_payload)
                          ''postprocess'' s2
                      else (exit_code, s2))
               else (exit_code, s1)) of
           (exit_code, s3) \<Rightarrow>
             (let s4 = post_payload s3
              in if utilities (job s4) \<noteq> [] then
                   (case stop_utilities E s4 of
                      Raise e s5 \<Rightarrow> Raise e s5
                    | Return u s5 \<Rightarrow> Return exit_code s5)
                 else Return exit_code s4))"

text \<open>
  One pass through the body of the loop of \<open>run\<close>. \<open>None\<close>: \<open>wait_graceful\<close> does not
  return; \<open>Inl\<close>: the loop is left (by \<open>break\<close> or by an exception) with this result;
  \<open>Inr\<close>: the job is an HPO job and the next pass starts with this command, iteration
  count and state.
\<close>

definition run_iteration ::
  "'w env \<Rightarrow> string \<Rightarrow> nat \<Rightarrow> 'w executor \<Rightarrow>
     ((int, 'w) result + (string \<times> nat \<times> 'w executor)) option" where
  "run_iteration E cmd iteration s =
     (let jobparams_pre = jobparams (job s) in
      case run_preprocess E s of
        Raise e s1 \<Rightarrow> Some (Inl (Raise e s1))
      | Return exit_code s1 \<Rightarrow>
          (let jobparams_post = jobparams (job s1) in
           if exit_code \<noteq> 0 then
             Some (Inl (Return (if exit_code = 160 then 0 else exit_code) s1))
           else
             (let cmd1 = (if jobparams_pre \<noteq> jobparams_post
                          then replace_py cmd jobparams_pre jobparams_post else cmd)
              in case run_payload E cmd1 s1 of
                   Raise e s2 \<Rightarrow> Some (Inl (Raise e s2))
                 | Return None s2 \<Rightarrow> Some (Inl (Return exit_code s2))
                 | Return (Some p) s2 \<Rightarrow>
                     (case wait_graceful E p (send_state s2) of
                        None \<Rightarrow> None
                      | Some (Raise e s3) \<Rightarrow> Some (Inl (Raise e s3))
                      | Some (Return waited s3) \<Rightarrow>
                          (case after_wait E waited s3 of
                             Raise e s4 \<Rightarrow> Some (Inl (Raise e s4))
                           | Return exit_code1 s4 \<Rightarrow>
                               if is_hpo (job s4) then Some (Inr (cmd1, iteration + 1, s4))
                               else Some (Inl (Return exit_code1 s4)))))))"

partial_function (option) run_loop ::
  "'w env \<Rightarrow> string \<Rightarrow> nat \<Rightarrow> 'w executor \<Rightarrow> (int, 'w) result option" where
  "run_loop E cmd iteration s =
     (case run_iteration E cmd iteration s of
        None \<Rightarrow> None
      | Some (Inl r) \<Rightarrow> Some r
      | Some (Inr (cmd', iteration', s')) \<Rightarrow> run_loop E cmd' iteration' s')"

declare run_loop.simps [code]

definition run :: "'w env \<Rightarrow> 'w executor \<Rightarrow> (int, 'w) result option" where
  "run E s =
     (case get_payload_command E (pre_setup s) of
        Raise e s1 \<Rightarrow> Some (Raise e s1)
      | Return cmd s1 \<Rightarrow>
          run_loop E cmd 1 (post_setup (s1\<lparr>job := (job s1)\<lparr>job_setup := extract_setup cmd\<rparr>\<rparr>)))"

section \<open>Reading results and traces\<close>

fun state_of :: "('a, 'w) result \<Rightarrow> 'w executor" where
  "state_of (Return x s) = s"
| "state_of (Raise e s) = s"

fun returned :: "('a, 'w) result \<Rightarrow> 'a option" where
  "returned (Return x s) = Some x"
| "returned (Raise e s) = None"

text \<open>Signals to a process or a process group.\<close>

fun is_signal :: "event \<Rightarrow> bool" where
  "is_signal (Killpg g sig) = True"
| "is_signal (Kill p) = True"
| "is_signal e = False"

text \<open>
  The calls that \<open>run_payload\<close> makes for the payload: its time stamp, which is its
  first statement, and the launch of the payload command.
\<close>

fun is_payload_call :: "event \<Rightarrow> bool" where
  "is_payload_call (Timing PILOT_PRE_PAYLOAD) = True"
| "is_payload_call (Launch c) = True"
| "is_payload_call e = False"

definition executed_commands :: "event list \<Rightarrow> string list" where
  "executed_commands tr = [c. Execute c \<leftarrow> tr]"

text \<open>
  What a run that ends (by \<open>return\<close> or by an exception) leaves: the value returned,
  the signals sent, the calls for the payload, the utility commands executed, the error
  codes and the state of the job.
\<close>

definition final_value :: "('a, 'w) result option \<Rightarrow> 'a option option" where
  "final_value x = map_option returned x"

definition final_signals :: "('a, 'w) result option \<Rightarrow> event list option" where
  "final_signals x = map_option (\<lambda>r. filter is_signal (trace (state_of r))) x"

definition final_payload_calls :: "('a, 'w) result option \<Rightarrow> event list option" where
  "final_payload_calls x = map_option (\<lambda>r. filter is_payload_call (trace (state_of r))) x"

definition final_executed :: "('a, 'w) result option \<Rightarrow> string list option" where
  "final_executed x = map_option (\<lambda>r. executed_commands (trace (state_of r))) x"

definition final_error_codes :: "('a, 'w) result option \<Rightarrow> int list option" where
  "final_error_codes x = map_option (\<lambda>r. piloterrorcodes (job (state_of r))) x"

definition final_job_state :: "('a, 'w) result option \<Rightarrow> string option" where
  "final_job_state x = map_option (\<lambda>r. state (job (state_of r))) x"

text \<open>
  What \<open>stop_utilities\<close> is to do for one entry of the utility table, when the process
  group of pid \<open>p\<close> is \<open>pg p\<close>: the designated signal to the group of a process, and
  the hook for every handle that counts as true.
\<close>

fun stop_events :: "'w env \<Rightarrow> (nat \<Rightarrow> nat) \<Rightarrow> string \<times> utility \<Rightarrow> event list" where
  "stop_events E pg (utcmd, Popen p, n, c) =
     [Killpg (pg p) (user_get_utility_command_kill_signal E utcmd), PostAction utcmd]"
| "stop_events E pg (utcmd, TupleHandle first, n, c) = [PostAction utcmd]"
| "stop_events E pg (utcmd, NoHandle, n, c) = []"

text \<open>
  The supervisor of \<open>wait_graceful\<close> between the start of a pass and its poll when the
  flag is not set: the short sleep and sixty sleeps of one second.
\<close>

fun sleeps :: "'w env \<Rightarrow> nat \<Rightarrow> nat \<Rightarrow> 'w executor \<Rightarrow> 'w executor" where
  "sleeps E 0 d s = s"
| "sleeps E (Suc n) d s = sleeps E n d (sleep E d s)"

definition idle_cycle :: "'w env \<Rightarrow> 'w executor \<Rightarrow> 'w executor" where
  "idle_cycle E s = sleeps E 60 10 (sleep E 1 s)"

text \<open>The flag is not set at any of the next \<open>n\<close> looks of the supervisor.\<close>

fun flag_unset_for :: "'w env \<Rightarrow> nat \<Rightarrow> 'w executor \<Rightarrow> bool" where
  "flag_unset_for E 0 s = True"
| "flag_unset_for E (Suc n) s =
     (\<not> graceful_stop_is_set E (world s) \<and> flag_unset_for E n (sleep E 10 s))"

text \<open>
  Natural completion seen by the supervisor: the poll of pass number \<open>n\<close> (counted
  from 0) is the first that reports an exit code, \<open>c\<close>, and the flag is not set at any
  look of the supervisor before that poll.
\<close>

fun natural_exit :: "'w env \<Rightarrow> nat \<Rightarrow> nat \<Rightarrow> 'w executor \<Rightarrow> int \<Rightarrow> bool" where
  "natural_exit E p 0 s c =
     (flag_unset_for E 60 (sleep E 1 s)
      \<and> fst (proc_poll E p (world (idle_cycle E s))) = Some c)"
| "natural_exit E p (Suc n) s c =
     (flag_unset_for E 60 (sleep E 1 s)
      \<and> fst (proc_poll E p (world (idle_cycle E s))) = None
      \<and> natural_exit E p n
            ((idle_cycle E s)\<lparr>world := snd (proc_poll E p (world (idle_cycle E s)))\<rparr>) c)"

section \<open>Concrete jobs and environments\<close>

text \<open>A fresh job for a given work directory, and an executor that has made no call yet.\<close>

definition new_job :: "bool \<Rightarrow> job" where
  "new_job hpo =
     \<lparr>jobid = ''1'', workdir = ''/w'', state = ''starting'', pid = None, pgrp = None,
      job_setup = [], jobparams = [], piloterrorcodes = [], piloterrordiags = [],
      utilities = [], is_hpo = hpo, coprocess = False, containerExec = None\<rparr>"

definition new_executor :: "job \<Rightarrow> 'w \<Rightarrow> 'w executor" where
  "new_executor j w = \<lparr>job = j, world = w, trace = [], traces_pilot_error_code = None\<rparr>"

text \<open>
  An environment whose world is a clock in tenths of a second. The payload exits with
  \<open>exit_code\<close> at \<open>exit_time\<close>, the interrupt arrives at \<open>flag_time\<close> (or never),
  \<open>time.sleep\<close> moves the clock, every process is its own group and signalling works.
  The command builder returns \<open>builder\<close>, the plug-in has the command dictionaries
  \<open>dicts\<close>, the launch of a process gives \<open>launch\<close>, and utility command number
  \<open>n\<close> (counted by the number of commands executed before it) exits with \<open>exits n\<close>.
\<close>

record clock =
  now :: nat
  executed :: nat

definition clock_env ::
  "nat option \<Rightarrow> nat \<Rightarrow> int \<Rightarrow> (exn + string) \<Rightarrow> (order \<Rightarrow> (string \<times> string) option) \<Rightarrow>
   (exn + handle) \<Rightarrow> (nat \<Rightarrow> int) \<Rightarrow> clock env" where
  "clock_env flag_time exit_time exit_code builder dicts launch exits =
     \<lparr>user_get_payload_command = (\<lambda>j w. (builder, w)),
      user_get_utility_commands = (\<lambda>ord j w. (Inr (dicts ord, jobparams j), w)),
      user_get_utility_command_setup = (\<lambda>c j w. (c, w)),
      user_get_utility_command_kill_signal = (\<lambda>c. SIGTERM),
      user_post_utility_command_action = (\<lambda>c j w. w),
      execute = (\<lambda>c j w. ((exits (executed w), [], []), w\<lparr>executed := executed w + 1\<rparr>)),
      execute_returnproc = (\<lambda>c j w. (launch, w)),
      path_exists = (\<lambda>p w. False),
      os_getpgid = (\<lambda>p w. Some p),
      os_killpg = (\<lambda>g sig w. (True, w)),
      proc_kill = (\<lambda>p w. w),
      proc_poll = (\<lambda>p w. (if exit_time \<le> now w then Some exit_code else None, w)),
      time_sleep = (\<lambda>d w. w\<lparr>now := now w + d\<rparr>),
      graceful_stop_is_set = (\<lambda>w. case flag_time of None \<Rightarrow> False | Some t \<Rightarrow> t \<le> now w),
      PREPROCESSFAILURE = 1357,
      POSTPROCESSFAILURE = 1358,
      UNKNOWNPAYLOADFAILURE = 1305,
      get_error_message = (\<lambda>c. ''error'')\<rparr>"

text \<open>The world at the start: time 0, no utility command executed.\<close>

definition start :: clock where
  "start = \<lparr>now = 0, executed = 0\<rparr>"

text \<open>
  Plug-ins: one without any utility command; one with a command to run with the payload
  only; one with commands before, with and after the payload.
\<close>

definition no_utilities :: "order \<Rightarrow> (string \<times> string) option" where
  "no_utilities ord = None"

definition with_payload_only :: "order \<Rightarrow> (string \<times> string) option" where
  "with_payload_only ord = (if ord = UTILITY_WITH_PAYLOAD then Some (''mon'', ''-x'') else None)"

definition pre_and_post :: "order \<Rightarrow> (string \<times> string) option" where
  "pre_and_post ord =
     (case ord of
        UTILITY_BEFORE_PAYLOAD \<Rightarrow> Some (''pre.sh'', ''-n'')
      | UTILITY_WITH_PAYLOAD \<Rightarrow> Some (''mon'', ''-x'')
      | UTILITY_AFTER_PAYLOAD_STARTED \<Rightarrow> None
      | UTILITY_AFTER_PAYLOAD_FINISHED \<Rightarrow> Some (''post.sh'', ''-c''))"

text \<open>
  The payload exits with code 0 after half a second; the interrupt arrives one second
  later, at 1.5 s.
\<close>

definition interrupt_after_exit :: "clock env" where
  "interrupt_after_exit =
     clock_env (Some 15) 5 0 (Inr ''payload.exe'') no_utilities (Inr (Popen 7)) (\<lambda>n. 0)"

text \<open>
  The payload exits with code 0 after half a second; the interrupt arrives after 70 s,
  when the supervisor has polled the exit status (at 60.1 s).
\<close>

definition interrupt_after_poll :: "clock env" where
  "interrupt_after_poll =
     clock_env (Some 700) 5 0 (Inr ''payload.exe'') no_utilities (Inr (Popen 7)) (\<lambda>n. 0)"

text \<open>A job with two registered utilities, one of them without a handle.\<close>

definition job_with_utilities :: job where
  "job_with_utilities =
     (new_job False)\<lparr>utilities :=
        [(''MemoryMonitor'', Popen 9, 1, ''mon -x''), (''NetworkMonitor'', NoHandle, 1, ''net'')]\<rparr>"

definition quiet :: "clock env" where
  "quiet = clock_env None 5 0 (Inr ''setup.sh; payload.exe'') no_utilities (Inr (Popen 7)) (\<lambda>n. 0)"

text \<open>The preprocess command exits with the sentinel 160 at once.\<close>

definition no_more_points :: "clock env" where
  "no_more_points =
     clock_env None 5 0 (Inr ''setup.sh; payload.exe'') pre_and_post (Inr (Popen 7)) (\<lambda>n. 160)"

text \<open>The command builder raises a \<open>PilotException\<close> with code 1305.\<close>

definition builder_fails :: "clock env" where
  "builder_fails =
     clock_env None 5 0 (Inl (PilotException 1305)) with_payload_only (Inr (Popen 7)) (\<lambda>n. 0)"


text \<open>
  The payload exits with 0; the first preprocess command exits with 0, the postprocess
  command with 5, and the second preprocess command with the sentinel 160.
\<close>

definition postprocess_fails :: "clock env" where
  "postprocess_fails =
     clock_env None 5 0 (Inr ''setup.sh; payload.exe'') pre_and_post (Inr (Popen 7))
       (\<lambda>n. if n = 1 then 5 else if n = 2 then 160 else 0)"



text \<open>An executor whose job already has its setup string.\<close>

definition configured :: "job \<Rightarrow> 'w \<Rightarrow> 'w executor" where
  "configured j w = new_executor (j\<lparr>job_setup := ''setup.sh; ''\<rparr>) w"

section \<open>The error list of a job only grows\<close>

text \<open>
  The error list of the second state extends that of the first: codes and diagnostics of
  the first are still there, in front and in their order.
\<close>

definition extends :: "'w executor \<Rightarrow> 'w executor \<Rightarrow> bool" where
  "extends s s' \<longleftrightarrow>
     prefix (piloterrorcodes (job s)) (piloterrorcodes (job s'))
     \<and> prefix (piloterrordiags (job s)) (piloterrordiags (job s'))"

section \<open>Facts about the string primitives\<close>

lemma replace_py_self: "t \<noteq> [] \<Longrightarrow> replace_py t t new = new"
  by (cases t) auto

lemma length_replace_py_le: "length (replace_py s t []) \<le> length s"
proof (induction s t "[] :: string" rule: replace_py.induct)
  case (1 old)
  then show ?case by simp
next
  case (2 c cs old)
  then show ?case by (auto simp: le_SucI) 
qed

lemma replace_py_deletes:
  "t \<noteq> [] \<Longrightarrow> length (replace_py (a @ t @ b) t []) \<le> length a + length b"
proof (induction a)
  case Nil
  then obtain c cs where t: "t = c # cs" by (cases t) auto
  have "replace_py (t @ b) t [] = replace_py b t []"
    unfolding t by simp
  then show ?case using length_replace_py_le [of b t] by simp
next
  case (Cons x a)
  show ?case
  proof (cases "take (length t) (x # a @ t @ b) = t")
    case True
    have "replace_py (x # a @ t @ b) t [] = replace_py (drop (length t) (x # a @ t @ b)) t []"
      using True Cons.prems by simp
    moreover have "length (drop (length t) (x # a @ t @ b)) = length a + length b + 1"
      by simp
    ultimately show ?thesis
      using length_replace_py_le [of "drop (length t) (x # a @ t @ b)" t] Cons.prems
      by (cases t) auto
  next
    case False
    then show ?thesis using Cons by simp
  qed
qed

lemma take_sep:
  assumes "c \<notin> set t"
  shows "take (length t) (x @ c # y) = t \<longleftrightarrow> take (length t) x = t"
proof (cases "length t \<le> length x")
  case True
  then show ?thesis by simp
next
  case False
  then have "take (length t) (x @ c # y) = x @ c # take (length t - length x - 1) y"
    by (simp add: take_Cons') 
  moreover have "take (length t) x = x" using False by simp
  ultimately show ?thesis using assms False
    by (metis in_set_conv_decomp nat_le_linear take_all_iff) 
qed

lemma replace_py_sep:
  "t \<noteq> [] \<Longrightarrow> c \<notin> set t \<Longrightarrow>
   replace_py (x @ c # y) t new = replace_py x t new @ c # replace_py y t new"
proof (induction x t new rule: replace_py.induct)
  case (1 old new)
  then have "take (length old) (c # y) \<noteq> old"
    using take_sep [of c old "[]" y] by auto
  with 1 show ?case by simp
next
  case (2 d ds old new)
  have eq: "take (length old) ((d # ds) @ c # y) = old \<longleftrightarrow> take (length old) (d # ds) = old"
    using take_sep [OF "2.prems"(2)] by blast
  show ?case
  proof (cases "take (length old) (d # ds) = old")
    case True
    then have "length (take (length old) (d # ds)) = length old"
      by simp
    then have len: "length old \<le> length (d # ds)"
      by (simp add: min_def split: if_splits)
    have "length old - length (d # ds) = 0"
      using len by simp
    then have dr: "drop (length old) ((d # ds) @ c # y) = drop (length old) (d # ds) @ c # y"
      by (simp only: drop_append drop_0)
    have "replace_py ((d # ds) @ c # y) old new
          = new @ replace_py (drop (length old) ((d # ds) @ c # y)) old new"
      using True eq "2.prems"(1) by simp
    also have "\<dots> = new @ replace_py (drop (length old) (d # ds) @ c # y) old new"
      by (simp only: dr)
    also have "\<dots> = new @ replace_py (drop (length old) (d # ds)) old new @ c # replace_py y old new"
      using True "2.IH"(2) "2.prems" by simp
    also have "\<dots> = replace_py (d # ds) old new @ c # replace_py y old new"
      using True "2.prems"(1) by simp
    finally show ?thesis .
  next
    case False
    then show ?thesis using eq "2.IH"(3) "2.prems" by simp
  qed
qed

lemma split_py_nonempty: "split_py sep s \<noteq> []"
  by (induction s) (auto split: list.splits)

lemma split_py_nosep: "sep \<notin> set s \<Longrightarrow> split_py sep s = [s]"
  by (induction s) auto

lemma split_py_append_sep: "split_py sep (p @ sep # t) = split_py sep p @ split_py sep t"
proof (induction p)
  case Nil
  then show ?case by simp
next
  case (Cons a p)
  then show ?case using split_py_nonempty [of sep p]
    by (auto split: list.splits)
qed

lemma last_split_py: "sep \<notin> set t \<Longrightarrow> last (split_py sep (p @ sep # t)) = t"
  by (simp add: split_py_append_sep split_py_nosep)

lemma rstrip_py_prefix: "s = rstrip_py s @ rev (takeWhile isspace (rev s))"
proof -
  have "rev (takeWhile isspace (rev s) @ dropWhile isspace (rev s)) = s"
    by (simp only: takeWhile_dropWhile_id rev_rev_ident)
  then show ?thesis
    unfolding rstrip_py_def by (simp only: rev_append)
qed

lemma rstrip_py_clean: "s \<noteq> [] \<Longrightarrow> \<not> isspace (last s) \<Longrightarrow> rstrip_py s = s"
  by (cases s rule: rev_cases) (auto simp: rstrip_py_def)

lemma lstrip_py_clean: "s \<noteq> [] \<Longrightarrow> \<not> isspace (hd s) \<Longrightarrow> lstrip_py s = s"
  by (cases s) (auto simp: lstrip_py_def)

lemma strip_py_clean:
  "s \<noteq> [] \<Longrightarrow> \<not> isspace (hd s) \<Longrightarrow> \<not> isspace (last s) \<Longrightarrow> strip_py s = s"
  by (simp add: strip_py_def lstrip_py_clean rstrip_py_clean)

lemma last_rstrip_py: "rstrip_py s \<noteq> [] \<Longrightarrow> \<not> isspace (last (rstrip_py s))"
  unfolding rstrip_py_def
  by (metis hd_dropWhile last_rev rev_is_Nil_conv)

lemma hd_rstrip_py: "rstrip_py s \<noteq> [] \<Longrightarrow> hd (rstrip_py s) = hd s"
  using rstrip_py_prefix [of s] by (metis hd_append2)

lemma hd_lstrip_py: "lstrip_py s \<noteq> [] \<Longrightarrow> \<not> isspace (hd (lstrip_py s))"
  unfolding lstrip_py_def by (rule hd_dropWhile)

lemma strip_py_idem: "strip_py (strip_py s) = strip_py s"
proof (cases "strip_py s = []")
  case True
  have "strip_py [] = []" by (simp add: strip_py_def lstrip_py_def rstrip_py_def)
  with True show ?thesis by simp
next
  case False
  then have ne: "rstrip_py (lstrip_py s) \<noteq> []" by (simp add: strip_py_def)
  then have "lstrip_py s \<noteq> []" by (auto simp: rstrip_py_def)
  then have "\<not> isspace (hd (lstrip_py s))" by (rule hd_lstrip_py)
  then have "\<not> isspace (hd (strip_py s))"
    using hd_rstrip_py [OF ne] by (simp add: strip_py_def)
  moreover have "\<not> isspace (last (strip_py s))"
    using last_rstrip_py [OF ne] by (simp add: strip_py_def)
  ultimately show ?thesis using False by (simp add: strip_py_clean)
qed

lemma set_strip_py: "set (strip_py s) \<subseteq> set s"
proof -
  have "set (rstrip_py (lstrip_py s)) \<subseteq> set (lstrip_py s)"
    unfolding rstrip_py_def using set_dropWhileD by fastforce
  moreover have "set (lstrip_py s) \<subseteq> set s"
    unfolding lstrip_py_def using set_dropWhileD by fastforce
  ultimately show ?thesis by (auto simp: strip_py_def)
qed

lemma endswith_semicolon: "endswith s '';'' \<longleftrightarrow> s \<noteq> [] \<and> last s = CHR '';''"
  by (cases s rule: rev_cases) (auto simp: endswith_def suffix_def)

lemma semicolon_not_space: "\<not> isspace CHR '';''"
  by (simp add: isspace_def)

lemma strip_py_command:
  assumes "t \<noteq> []" "\<not> isspace (last t)"
  shows "strip_py (p @ CHR '';'' # ws @ t) = lstrip_py p @ CHR '';'' # ws @ t"
proof -
  have "dropWhile isspace (p @ CHR '';'' # ws @ t) = dropWhile isspace p @ CHR '';'' # ws @ t"
    by (induction p) (simp_all add: semicolon_not_space)
  then have "lstrip_py (p @ CHR '';'' # ws @ t) = lstrip_py p @ CHR '';'' # ws @ t"
    by (simp add: lstrip_py_def)
  moreover have "rstrip_py (lstrip_py p @ CHR '';'' # ws @ t) = lstrip_py p @ CHR '';'' # ws @ t"
    using assms by (intro rstrip_py_clean) auto
  ultimately show ?thesis by (simp add: strip_py_def)
qed

lemma strip_py_clause:
  assumes "\<forall>c \<in> set ws. isspace c" "t \<noteq> []" "\<not> isspace (hd t)" "\<not> isspace (last t)"
  shows "strip_py (ws @ t) = t"
proof -
  have "dropWhile isspace (ws @ t) = t"
    using assms by (cases t) (auto simp: dropWhile_append)
  then show ?thesis using assms by (simp add: strip_py_def lstrip_py_def rstrip_py_clean)
qed

lemma replace_py_clause:
  assumes "\<forall>c \<in> set ws. isspace c" "t \<noteq> []" "\<not> isspace (hd t)"
  shows "replace_py (ws @ t) t [] = ws"
  using assms
proof (induction ws)
  case Nil
  then show ?case by (simp add: replace_py_self)
next
  case (Cons w ws)
  then have "hd (take (length t) (w # ws @ t)) \<noteq> hd t"
    by (cases t) auto
  then have "take (length t) (w # ws @ t) \<noteq> t" by metis
  then show ?case using Cons by simp
qed

lemma dropWhile_keep:
  "t \<noteq> [] \<Longrightarrow> \<not> P (hd t) \<Longrightarrow> dropWhile P (a @ t) = dropWhile P a @ t"
  by (induction a) (cases t; simp)+

section \<open>Properties of extract\_setup\<close>

text \<open>
  A command without any semicolon is its own final clause, so the whole (stripped)
  command is replaced by the empty string.
\<close>

lemma extract_setup_no_semicolon:
  assumes "CHR '';'' \<notin> set cmd"
  shows "extract_setup cmd = []"
proof -
  let ?c = "strip_py cmd"
  have ns: "CHR '';'' \<notin> set ?c" using assms set_strip_py by blast
  then have ne: "\<not> endswith ?c '';''"
    unfolding endswith_semicolon using last_in_set by metis 
  have "last (split_py CHR '';'' ?c) = ?c" using ns by (simp add: split_py_nosep)
  then have "extract_setup cmd = replace_py ?c ?c []"
    using ne by (simp add: extract_setup_def Let_def strip_py_idem)
  then show ?thesis by (cases ?c) auto
qed

text \<open>
  C1. The claim: for a command ending in one or more semicolons the final clause and all
  trailing semicolons are removed. The source comment announces the removal of "any
  trailing spaces and ;-signs", but \<open>cmd[:-1] if cmd.endswith(';')\<close> removes one
  semicolon only. With two trailing semicolons the last piece of the split is empty,
  the replacement of the empty string by the empty string changes nothing, and the
  final clause \<open>run.exe\<close> stays in the returned setup.
\<close>

theorem extract_setup_two_trailing_semicolons:
  "extract_setup ''source env.sh; run.exe;;'' = ''source env.sh; run.exe;''"
  by code_simp

text \<open>
  C9. The final clause is removed by \<open>cmd.replace(last_bit.strip(), '')\<close>, a replacement
  over the whole command. For a command \<open>p;ws t\<close> whose final clause \<open>t\<close> (non-empty,
  without semicolon, without surrounding whitespace, preceded by whitespace \<open>ws\<close>) also
  occurs inside the setup part \<open>p\<close>, the occurrences inside \<open>p\<close> are deleted as well:
  the result is the replacement applied to \<open>p\<close>, it is shorter than the setup part by at
  least one occurrence, and it is not the part of the command before the final clause.
\<close>

theorem extract_setup_replaces_globally:
  assumes "t \<noteq> []" and "CHR '';'' \<notin> set t"
    and "\<not> isspace (hd t)" and "\<not> isspace (last t)"
    and "\<forall>c \<in> set ws. isspace c"
    and "sublist t p"
  shows "extract_setup (p @ CHR '';'' # ws @ t) = replace_py (lstrip_py p) t [] @ CHR '';'' # ws
       \<and> length (extract_setup (p @ CHR '';'' # ws @ t)) + length t \<le> length (lstrip_py p @ CHR '';'' # ws)
       \<and> extract_setup (p @ CHR '';'' # ws @ t) \<noteq> lstrip_py p @ CHR '';'' # ws"
proof -
  let ?cmd = "lstrip_py p @ CHR '';'' # ws @ t"
  let ?res = "extract_setup (p @ CHR '';'' # ws @ t)"
  have wsns: "CHR '';'' \<notin> set ws"
    using assms(5) semicolon_not_space by blast
  have s: "strip_py (p @ CHR '';'' # ws @ t) = ?cmd"
    using assms(1,4) by (rule strip_py_command)
  have "last ?cmd = last t"
    using assms(1) by simp
  moreover have "last t \<in> set t"
    using assms(1) by (rule last_in_set)
  ultimately have "last ?cmd \<noteq> CHR '';''"
    using assms(2) by auto
  then have ne: "\<not> endswith ?cmd '';''"
    by (simp add: endswith_semicolon)
  have "CHR '';'' \<notin> set (ws @ t)"
    using wsns assms(2) by simp
  then have lb: "last (split_py CHR '';'' ?cmd) = ws @ t"
    by (rule last_split_py)
  have st: "strip_py (ws @ t) = t"
    using assms(5,1,3,4) by (rule strip_py_clause)
  have e: "?res = replace_py ?cmd t []"
    unfolding extract_setup_def Let_def s using ne lb st by simp
  have "replace_py ?cmd t [] = replace_py (lstrip_py p) t [] @ CHR '';'' # replace_py (ws @ t) t []"
    using assms(1,2) by (rule replace_py_sep)
  also have "replace_py (ws @ t) t [] = ws"
    using assms(5,1,3) by (rule replace_py_clause)
  finally have r: "?res = replace_py (lstrip_py p) t [] @ CHR '';'' # ws"
    using e by simp
  obtain a b where p: "p = a @ t @ b"
    using assms(6) by (auto simp: sublist_def)
  have "t @ b \<noteq> []" and "\<not> isspace (hd (t @ b))"
    using assms(1,3) by simp_all
  then have "dropWhile isspace (a @ t @ b) = dropWhile isspace a @ t @ b"
    by (rule dropWhile_keep)
  then have lp: "lstrip_py p = dropWhile isspace a @ t @ b"
    by (simp add: p lstrip_py_def)
  have "length (replace_py (dropWhile isspace a @ t @ b) t []) \<le> length (dropWhile isspace a) + length b"
    using assms(1) by (rule replace_py_deletes)
  then have len: "length (replace_py (lstrip_py p) t []) + length t \<le> length (lstrip_py p)"
    by (simp add: lp)
  then have l2: "length ?res + length t \<le> length (lstrip_py p @ CHR '';'' # ws)"
    by (simp add: r)
  have "length t > 0"
    using assms(1) by simp
  with l2 have "length ?res \<noteq> length (lstrip_py p @ CHR '';'' # ws)"
    by linarith
  then have "?res \<noteq> lstrip_py p @ CHR '';'' # ws"
    by auto
  with r l2 show ?thesis
    by blast
qed

theorem extract_setup_replaces_globally_witness:
  "extract_setup ''setup python; python'' = ''setup ; ''
   \<and> extract_setup ''setup python; python'' \<noteq> ''setup python; ''"
proof -
  have sub: "sublist ''python'' ''setup python''"
    unfolding sublist_def by (intro exI [of _ "''setup ''"] exI [of _ "[]"]) simp
  have sp: "\<forall>c \<in> set '' ''. isspace c"
    by (simp add: isspace_def)
  have "\<not> isspace (hd ''python'')" and "\<not> isspace (last ''python'')"
    by (simp_all add: isspace_def)
  then show ?thesis
    using extract_setup_replaces_globally [of "''python''" "'' ''" "''setup python''"] sub sp
    by (simp add: lstrip_py_def isspace_def)
qed
section \<open>The cancellation flag is monotonic\<close>

lemma flag_step_keeps_set:
  "graceful_stop a \<Longrightarrow> flag_step signal_dict a ev = a"
  by (cases ev) (auto simp: interrupt_def split: list.splits)

lemma flag_run_keeps_set:
  "graceful_stop a \<Longrightarrow> flag_run signal_dict a evs = a"
  unfolding flag_run_def by (induction evs) (simp_all add: flag_step_keeps_set)

lemma flag_run_append:
  "flag_run signal_dict a (evs @ evs') = flag_run signal_dict (flag_run signal_dict a evs) evs'"
  by (simp add: flag_run_def)

text \<open>
  C8. The handler is the only writer of the flag and it only sets it. In every run (any
  sequence of deliveries of the interrupt signal and of reads), a handler that returns
  leaves the flag set; once the flag is set after some events it is set after any further
  events; and a further signal on a set flag changes nothing.
\<close>

theorem graceful_stop_monotonic:
  "(interrupt signal_dict a signum = Inr a' \<longrightarrow> graceful_stop a')
   \<and> (graceful_stop (flag_run signal_dict a evs) \<longrightarrow>
        graceful_stop (flag_run signal_dict a (evs @ evs')))
   \<and> (graceful_stop a \<longrightarrow> flag_step signal_dict a Deliver_SIGINT = a)"
proof (intro conjI impI)
  assume "interrupt signal_dict a signum = Inr a'"
  then show "graceful_stop a'"
    by (auto simp: interrupt_def split: list.splits)
next
  assume "graceful_stop (flag_run signal_dict a evs)"
  then show "graceful_stop (flag_run signal_dict a (evs @ evs'))"
    by (simp add: flag_run_append flag_run_keeps_set)
next
  assume "graceful_stop a"
  then show "flag_step signal_dict a Deliver_SIGINT = a"
    by (rule flag_step_keeps_set)
qed

theorem graceful_stop_monotonic_witness:
  "interrupt [(''SIGINT'', 2)] \<lparr>graceful_stop = False\<rparr> 2 = Inr \<lparr>graceful_stop = True\<rparr>
   \<and> graceful_stop (flag_run [(''SIGINT'', 2)] \<lparr>graceful_stop = False\<rparr> [Is_set, Deliver_SIGINT])
   \<and> graceful_stop (flag_run [(''SIGINT'', 2)] \<lparr>graceful_stop = False\<rparr>
         ([Is_set, Deliver_SIGINT] @ [Is_set, Deliver_SIGINT, Deliver_SIGINT]))
   \<and> flag_step [(''SIGINT'', 2)] \<lparr>graceful_stop = True\<rparr> Deliver_SIGINT = \<lparr>graceful_stop = True\<rparr>"
proof -
  have i: "interrupt [(''SIGINT'', 2)] \<lparr>graceful_stop = False\<rparr> 2 = Inr \<lparr>graceful_stop = True\<rparr>"
    by (simp add: interrupt_def)
  have r: "graceful_stop (flag_run [(''SIGINT'', 2)] \<lparr>graceful_stop = False\<rparr> [Is_set, Deliver_SIGINT])"
    by (simp add: flag_run_def interrupt_def SIGINT_def)
  have t: "graceful_stop \<lparr>graceful_stop = True\<rparr>"
    by simp
  show ?thesis
    using i r t
      graceful_stop_monotonic [of "[(''SIGINT'', 2)]" "\<lparr>graceful_stop = False\<rparr>" 2
        "\<lparr>graceful_stop = True\<rparr>" "[Is_set, Deliver_SIGINT]" "[Is_set, Deliver_SIGINT, Deliver_SIGINT]"]
      graceful_stop_monotonic [of "[(''SIGINT'', 2)]" "\<lparr>graceful_stop = True\<rparr>" 2
        "\<lparr>graceful_stop = True\<rparr>" "[]" "[]"]
    by blast
qed

section \<open>Facts about the executor\<close>

subsection \<open>Events, sleeping and the supervisor\<close>

lemma emit_simps [simp]:
  "job (emit e s) = job s" "world (emit e s) = world s" "trace (emit e s) = trace s @ [e]"
  by (simp_all add: emit_def)

lemma sleep_simps [simp]:
  "job (sleep E d s) = job s" "trace (sleep E d s) = trace s @ [Sleep d]"
  "world (sleep E d s) = time_sleep E d (world s)"
  by (simp_all add: sleep_def)

lemma sleeps_job [simp]: "job (sleeps E n d s) = job s"
  by (induction n arbitrary: s) simp_all

lemma sleeps_signals [simp]:
  "filter is_signal (trace (sleeps E n d s)) = filter is_signal (trace s)"
  by (induction n arbitrary: s) simp_all

lemma idle_cycle_simps [simp]:
  "job (idle_cycle E s) = job s"
  "filter is_signal (trace (idle_cycle E s)) = filter is_signal (trace s)"
  by (simp_all add: idle_cycle_def)

lemma timing_job [simp]:
  "job (add_to_pilot_timing l s) = job s" "job (pre_setup s) = job s" "job (post_setup s) = job s"
  "job (pre_payload s) = job s" "job (post_payload s) = job s" "job (send_state s) = job s"
  by (simp_all add: add_to_pilot_timing_def pre_setup_def post_setup_def pre_payload_def
      post_payload_def send_state_def)

lemma write_utility_output_job [simp]: "job (write_utility_output wd step s) = job s"
  by (simp add: write_utility_output_def)

lemma flag_checks_unset:
  "flag_unset_for E n s \<Longrightarrow> flag_checks E p n s = Return False (sleeps E n 10 s)"
  by (induction n arbitrary: s) simp_all

lemma wait_cycle_exit:
  assumes "flag_unset_for E 60 (sleep E 1 s)"
    and "fst (proc_poll E p (world (idle_cycle E s))) = Some c"
  shows "wait_cycle E p iteration exit_code s
         = Inl (Return (Some c) ((idle_cycle E s)\<lparr>world := snd (proc_poll E p (world (idle_cycle E s)))\<rparr>))"
  using assms
  by (auto simp: wait_cycle_def flag_checks_unset idle_cycle_def split: prod.splits)

lemma wait_cycle_running:
  assumes "flag_unset_for E 60 (sleep E 1 s)"
    and "fst (proc_poll E p (world (idle_cycle E s))) = None"
  shows "wait_cycle E p iteration exit_code s
         = Inr (iteration + 1, None, (idle_cycle E s)\<lparr>world := snd (proc_poll E p (world (idle_cycle E s)))\<rparr>)"
  using assms
  by (auto simp: wait_cycle_def flag_checks_unset idle_cycle_def split: prod.splits)

lemma wait_loop_natural_exit:
  "natural_exit E p n s c \<Longrightarrow>
   \<exists>s'. wait_loop E p iteration exit_code s = Some (Return (Some c) s')
        \<and> job s' = job s
        \<and> filter is_signal (trace s') = filter is_signal (trace s)"
proof (induction n arbitrary: s iteration exit_code)
  case 0
  then show ?case
    by (subst wait_loop.simps) (simp add: wait_cycle_exit)
next
  case (Suc n)
  let ?s1 = "(idle_cycle E s)\<lparr>world := snd (proc_poll E p (world (idle_cycle E s)))\<rparr>"
  from Suc.prems have c: "wait_cycle E p iteration exit_code s = Inr (iteration + 1, None, ?s1)"
    by (simp add: wait_cycle_running)
  from Suc.prems have "natural_exit E p n ?s1 c" by simp
  then obtain s' where "wait_loop E p (iteration + 1) None ?s1 = Some (Return (Some c) s')"
    "job s' = job ?s1" "filter is_signal (trace s') = filter is_signal (trace ?s1)"
    using Suc.IH by blast
  then show ?case
    by (subst wait_loop.simps) (simp add: c)
qed




text \<open>
  The cancellation path of \<open>wait_graceful\<close>: when the flag is set at the first look, the
  calls are the short sleep, \<open>SIGTERM\<close> to the process group of the payload, three
  seconds of sleep and \<open>kill\<close> of the payload process; the value returned is \<open>None\<close>.
\<close>

lemma flag_checks_set:
  assumes "graceful_stop_is_set E (world s)"
    and "os_getpgid E p (world s) = Some g"
    and "os_killpg E g SIGTERM (world s) = (True, w)"
    and "0 < n"
  shows "flag_checks E p n s = Return True (emit (Killpg g SIGTERM) (s\<lparr>world := w\<rparr>))"
  using assms by (cases n) simp_all

lemma wait_graceful_cancelled:
  assumes "graceful_stop_is_set E (world (sleep E 1 s))"
    and "os_getpgid E p (world (sleep E 1 s)) = Some g"
    and "os_killpg E g SIGTERM (world (sleep E 1 s)) = (True, w)"
  shows "\<exists>s'. wait_graceful E p s = Some (Return None s')
           \<and> trace s' = trace s @ [Sleep 1, Killpg g SIGTERM, Sleep 30, Kill p]"
proof -
  have "flag_checks E p 60 (sleep E 1 s)
        = Return True (emit (Killpg g SIGTERM) ((sleep E 1 s)\<lparr>world := w\<rparr>))"
    using assms by (rule flag_checks_set) simp
  then obtain r where c: "wait_cycle E p 0 None s = Inl (Return None r)"
    and t: "trace r = trace s @ [Sleep 1, Killpg g SIGTERM, Sleep 30, Kill p]"
    by (simp add: wait_cycle_def Let_def del: One_nat_def)
  have "wait_loop E p 0 None s = Some (Return None r)"
    by (subst wait_loop.simps) (simp add: c)
  then show ?thesis
    using t by (auto simp: wait_graceful_def)
qed

subsection \<open>stop\_utilities\<close>

lemma stop_utility_job [simp]: "job (stop_utility E utcmd utproc s) = job s"
  by (simp add: stop_utility_def Let_def split: handle.splits option.splits prod.splits)

lemma stop_utility_trace:
  "\<forall>p w. os_getpgid E p w = Some (pg p) \<Longrightarrow> utproc \<noteq> NoHandle \<Longrightarrow>
   trace (stop_utility E utcmd utproc s) = trace s @ stop_events E pg (utcmd, utproc, n, c)"
  by (cases utproc) (simp_all add: stop_utility_def Let_def split: prod.splits)

lemma stop_utilities_loop_returns:
  assumes "\<forall>k \<in> set keys. map_of (utilities (job s)) k \<noteq> None"
  shows "\<exists>s'. stop_utilities_loop E keys s = Return () s' \<and> job s' = job s"
  using assms
proof (induction keys arbitrary: s)
  case Nil
  then show ?case by simp
next
  case (Cons k keys)
  then obtain utproc n c where l: "map_of (utilities (job s)) k = Some (utproc, n, c)"
    by (cases "map_of (utilities (job s)) k") auto
  let ?s1 = "if utproc \<noteq> NoHandle then stop_utility E k utproc s else s"
  have j: "job ?s1 = job s" by simp
  then have "\<forall>k \<in> set keys. map_of (utilities (job ?s1)) k \<noteq> None"
    using Cons.prems by simp
  then obtain s' where "stop_utilities_loop E keys ?s1 = Return () s'" "job s' = job ?s1"
    using Cons.IH by blast
  then show ?case using l j by simp
qed

lemma stop_utilities_returns: "\<exists>s'. stop_utilities E s = Return () s' \<and> job s' = job s"
  unfolding stop_utilities_def
  by (rule stop_utilities_loop_returns) (auto simp: map_of_eq_None_iff)

lemma stop_utilities_loop_trace:
  assumes "\<forall>p w. os_getpgid E p w = Some (pg p)"
    and "\<forall>(k, v) \<in> set es. map_of (utilities (job s)) k = Some v"
  shows "trace (state_of (stop_utilities_loop E (map fst es) s)) = trace s @ concat (map (stop_events E pg) es)"
  using assms(2)
proof (induction es arbitrary: s)
  case Nil
  then show ?case by simp
next
  case (Cons e es)
  obtain k utproc n c where e: "e = (k, utproc, n, c)" by (cases e) auto
  have l: "map_of (utilities (job s)) k = Some (utproc, n, c)"
    using Cons.prems e by simp
  let ?s1 = "if utproc \<noteq> NoHandle then stop_utility E k utproc s else s"
  have j: "job ?s1 = job s" by simp
  have "\<forall>(k, v) \<in> set es. map_of (utilities (job ?s1)) k = Some v"
    using Cons.prems by (simp add: j)
  then have "trace (state_of (stop_utilities_loop E (map fst es) ?s1))
             = trace ?s1 @ concat (map (stop_events E pg) es)"
    by (rule Cons.IH)
  moreover have "trace ?s1 = trace s @ stop_events E pg e"
    using stop_utility_trace [OF assms(1), of utproc k s n c] e by (cases utproc) simp_all
  ultimately show ?case using l e by simp
qed

subsection \<open>Every operation extends the error list\<close>

lemma extends_refl [simp]: "extends s s"
  by (simp add: extends_def)



lemma extends_job_cong: "job s1 = job s \<Longrightarrow> extends s1 s2 \<Longrightarrow> extends s s2"
  by (simp add: extends_def)


















subsection \<open>Steps of the loop of run\<close>

lemma get_utility_commands_keeps:
  assumes "get_utility_commands E ord s = r"
  shows "piloterrorcodes (job (state_of r)) = piloterrorcodes (job s)"
    and "piloterrordiags (job (state_of r)) = piloterrordiags (job s)"
    and "state (job (state_of r)) = state (job s)"
    and "is_hpo (job (state_of r)) = is_hpo (job s)"
    and "trace (state_of r) = trace s"
  using assms
  by (auto simp: get_utility_commands_def split: prod.splits sum.splits)

lemma utility_before_payload_keeps:
  assumes "utility_before_payload E s = Return c s1"
  shows "piloterrorcodes (job s1) = piloterrorcodes (job s)"
    and "piloterrordiags (job s1) = piloterrordiags (job s)"
    and "trace s1 = trace s"
  using assms get_utility_commands_keeps [of E UTILITY_BEFORE_PAYLOAD s]
  by (auto simp: utility_before_payload_def split: result.splits option.splits)

lemma execute_utility_command_sentinel:
  assumes "execute_utility_command E cmd label s = (160, s1)"
  shows "job s1 = job s"
    and "trace s1 = trace s @ [Execute cmd, WriteFile (path_join (workdir (job s)) (label @ ''_stdout.txt'')),
                               WriteFile (path_join (workdir (job s)) (label @ ''_stderr.txt''))]"
  using assms
  by (auto simp: execute_utility_command_def write_utility_output_def Let_def split: prod.splits)

lemma run_preprocess_sentinel:
  assumes "run_preprocess E s = Return 160 s1"
  shows "piloterrorcodes (job s1) = piloterrorcodes (job s)"
    and "piloterrordiags (job s1) = piloterrordiags (job s)"
    and "filter is_payload_call (trace s1) = filter is_payload_call (trace s)"
proof -
  obtain c s0 where u: "utility_before_payload E s = Return c s0"
    using assms by (cases "utility_before_payload E s") (auto simp: run_preprocess_def)
  then have c: "c \<noteq> []"
    using assms by (auto simp: run_preprocess_def)
  obtain ec s2 where x: "execute_utility_command E (job_setup (job s0) @ c) ''preprocess'' s0 = (ec, s2)"
    by (cases "execute_utility_command E (job_setup (job s0) @ c) ''preprocess'' s0")
  have "ec = 160 \<and> s2 = s1"
    using assms u c x by (auto simp: run_preprocess_def Let_def split: if_splits)
  then have x1: "execute_utility_command E (job_setup (job s0) @ c) ''preprocess'' s0 = (160, s1)"
    using x by simp
  show "piloterrorcodes (job s1) = piloterrorcodes (job s)"
    using execute_utility_command_sentinel(1) [OF x1] utility_before_payload_keeps(1) [OF u] by simp
  show "piloterrordiags (job s1) = piloterrordiags (job s)"
    using execute_utility_command_sentinel(1) [OF x1] utility_before_payload_keeps(2) [OF u] by simp
  show "filter is_payload_call (trace s1) = filter is_payload_call (trace s)"
    using execute_utility_command_sentinel(2) [OF x1] utility_before_payload_keeps(3) [OF u] by simp
qed

lemma execute_utility_command_keeps:
  assumes "execute_utility_command E cmd label s = (ec, s1)"
  shows "state (job s1) = state (job s)" and "is_hpo (job s1) = is_hpo (job s)"
  using assms
  by (auto simp: execute_utility_command_def write_utility_output_def record_error_def
      add_error_code_def Let_def split: prod.splits if_splits)

lemma utility_after_payload_finished_keeps:
  assumes "utility_after_payload_finished E s = Return c s1"
  shows "state (job s1) = state (job s)" and "is_hpo (job s1) = is_hpo (job s)"
  using assms get_utility_commands_keeps [of E UTILITY_AFTER_PAYLOAD_FINISHED s]
  by (auto simp: utility_after_payload_finished_def split: result.splits option.splits)

lemma after_wait_postprocess:
  assumes "utility_after_payload_finished E (set_pilot_state ''finished'' s3) = Return c s4"
    and "c \<noteq> []"
    and "execute_utility_command E (job_setup (job s4) @ c) ''postprocess'' s4 = (pc, s5)"
  shows "\<exists>s'. after_wait E (Some 0) s3 = Return pc s' \<and> job s' = job s5
              \<and> state (job s') = ''finished''"
proof -
  have st: "state (job s5) = ''finished''"
    using execute_utility_command_keeps(1) [OF assms(3)]
      utility_after_payload_finished_keeps(1) [OF assms(1)]
    by (simp add: set_pilot_state_def)
  obtain s6 where s6: "stop_utilities E (post_payload s5) = Return () s6" "job s6 = job (post_payload s5)"
    using stop_utilities_returns by blast
  show ?thesis
  proof (cases "utilities (job (post_payload s5)) \<noteq> []")
    case True
    then have "after_wait E (Some 0) s3 = Return pc s6"
      using assms s6 unfolding after_wait_def Let_def by (simp del: One_nat_def)
    then show ?thesis using s6 st by simp
  next
    case False
    then have "after_wait E (Some 0) s3 = Return pc (post_payload s5)"
      using assms unfolding after_wait_def Let_def by (simp del: One_nat_def)
    then show ?thesis using st by simp
  qed
qed

lemma run_loop_break:
  assumes "run_preprocess E s = Return ec s1" and "ec \<noteq> 0"
  shows "run_loop E cmd iteration s = Some (Return (if ec = 160 then 0 else ec) s1)"
proof -
  have "run_iteration E cmd iteration s = Some (Inl (Return (if ec = 160 then 0 else ec) s1))"
    using assms by (simp add: run_iteration_def)
  then show ?thesis
    by (subst run_loop.simps) simp
qed


lemma run_loop_step:
  assumes "run_preprocess E s = Return 0 s1"
    and "cmd1 = (if jobparams (job s) \<noteq> jobparams (job s1)
                 then replace_py cmd (jobparams (job s)) (jobparams (job s1)) else cmd)"
    and "run_payload E cmd1 s1 = Return (Some p) s2"
    and "wait_graceful E p (send_state s2) = Some (Return waited s3)"
    and "after_wait E waited s3 = Return ec s4"
  shows "run_loop E cmd iteration s =
           (if is_hpo (job s4) then run_loop E cmd1 (iteration + 1) s4 else Some (Return ec s4))"
proof -
  have "run_iteration E cmd iteration s =
          (if is_hpo (job s4) then Some (Inr (cmd1, iteration + 1, s4)) else Some (Inl (Return ec s4)))"
    using assms unfolding run_iteration_def Let_def by simp
  then show ?thesis
    by (subst run_loop.simps) simp
qed

lemmas final_defs =
  final_value_def final_signals_def final_payload_calls_def final_executed_def
  final_error_codes_def final_job_state_def

section \<open>The claims about the executor\<close>

subsection \<open>wait\_graceful\<close>

text \<open>
  The claim C3 reads: whenever the payload exits with code 0 before the cancellation flag
  is set, no signal is sent and the exit code is returned. The supervisor looks at the
  flag every second but polls the exit status only after sixty looks. Here the payload
  has exited with code 0 at 0.5 s and the flag is set at 1.5 s: the supervisor has not
  polled yet, sends \<open>SIGTERM\<close> to the group and \<open>SIGKILL\<close> to the process, and returns
  \<open>None\<close>.
\<close>

theorem wait_graceful_signals_exited_payload:
  "fst (proc_poll interrupt_after_exit 7 \<lparr>now = 5, executed = 0\<rparr>) = Some 0
   \<and> \<not> graceful_stop_is_set interrupt_after_exit \<lparr>now = 14, executed = 0\<rparr>
   \<and> final_value (wait_graceful interrupt_after_exit 7 (new_executor (new_job False) start))
       = Some (Some None)
   \<and> final_signals
        (wait_graceful interrupt_after_exit 7 (new_executor (new_job False) start))
       = Some [Killpg 7 SIGTERM, Kill 7]"
  by code_simp

text \<open>
  C3, as the code has it: when the flag is not set at any look of the supervisor before
  the poll that first reports the exit of the payload, \<open>wait_graceful\<close> returns, the
  value returned is the exit code that this poll reports, and no signal is sent to the
  process or to its group.
\<close>

theorem wait_graceful_natural_exit:
  assumes "natural_exit E p n s c"
  shows "\<exists>s'. wait_graceful E p s = Some (Return (Some c) s')
           \<and> filter is_signal (trace s') = filter is_signal (trace s)"
  using wait_loop_natural_exit [OF assms] unfolding wait_graceful_def by blast

theorem wait_graceful_natural_exit_witness:
  "natural_exit interrupt_after_poll 7 0 (new_executor (new_job False) start) 0
   \<and> final_value (wait_graceful interrupt_after_poll 7 (new_executor (new_job False) start))
       = Some (Some (Some 0))
   \<and> final_signals
        (wait_graceful interrupt_after_poll 7 (new_executor (new_job False) start))
       = Some []"
proof -
  have h: "natural_exit interrupt_after_poll 7 0 (new_executor (new_job False) start) 0"
    by code_simp
  have t: "trace (new_executor (new_job False) start) = []"
    by (simp add: new_executor_def)
  show ?thesis
    using h t wait_graceful_natural_exit [OF h] by (auto simp: final_defs)
qed

subsection \<open>stop\_utilities\<close>

text \<open>
  The claim C5 ends: on return the utility table is cleared. No statement of
  \<open>stop_utilities\<close> removes an entry. A table with two entries has the same two
  entries on return.
\<close>

theorem stop_utilities_table_not_cleared:
  "returned (stop_utilities quiet (new_executor job_with_utilities start)) = Some ()
   \<and> utilities (job (state_of (stop_utilities quiet (new_executor job_with_utilities start))))
       = [(''MemoryMonitor'', Popen 9, 1, ''mon -x''), (''NetworkMonitor'', NoHandle, 1, ''net'')]"
  by code_simp

text \<open>
  C5, as the code has it: for every job and every utility table (a dictionary: no key
  twice), \<open>stop_utilities\<close> returns without raising, whatever the signalling calls do,
  and leaves the job, and so the utility table, as it was. When the process group of
  every pid can be looked up, the calls it makes are, entry by entry in the order of the
  table: for a process handle the designated signal of the utility to the process group,
  then the post-stop hook; for another handle that counts as true the hook only; for an
  entry without handle nothing.
\<close>

theorem stop_utilities_keeps_table:
  assumes "distinct (map fst (utilities (job s)))"
  shows "\<exists>s'. stop_utilities E s = Return () s'
           \<and> job s' = job s
           \<and> ((\<forall>p w. os_getpgid E p w = Some (pg p)) \<longrightarrow>
                trace s' = trace s @ concat (map (stop_events E pg) (utilities (job s))))"
proof -
  obtain s' where r: "stop_utilities E s = Return () s'" and j: "job s' = job s"
    using stop_utilities_returns by blast
  have "trace s' = trace s @ concat (map (stop_events E pg) (utilities (job s)))"
    if g: "\<forall>p w. os_getpgid E p w = Some (pg p)"
  proof -
    have "\<forall>(k, v) \<in> set (utilities (job s)). map_of (utilities (job s)) k = Some v"
      using assms by auto
    then have "trace (state_of (stop_utilities_loop E (map fst (utilities (job s))) s))
               = trace s @ concat (map (stop_events E pg) (utilities (job s)))"
      using g by (intro stop_utilities_loop_trace) 
    then show ?thesis using r by (simp add: stop_utilities_def)
  qed
  then show ?thesis using r j by blast
qed

theorem stop_utilities_keeps_table_witness:
  "distinct (map fst (utilities (job (new_executor job_with_utilities start))))
   \<and> returned (stop_utilities quiet (new_executor job_with_utilities start)) = Some ()
   \<and> job (state_of (stop_utilities quiet (new_executor job_with_utilities start))) = job_with_utilities
   \<and> trace (state_of (stop_utilities quiet (new_executor job_with_utilities start)))
       = [Killpg 9 SIGTERM, PostAction ''MemoryMonitor'']"
proof -
  have d: "distinct (map fst (utilities (job (new_executor job_with_utilities start))))"
    by (simp add: new_executor_def job_with_utilities_def)
  have g: "\<forall>p w. os_getpgid quiet p w = Some p"
    by (simp add: quiet_def clock_env_def)
  have e: "concat (map (stop_events quiet (\<lambda>p. p)) (utilities (job (new_executor job_with_utilities start))))
           = [Killpg 9 SIGTERM, PostAction ''MemoryMonitor'']"
    by (simp add: new_executor_def job_with_utilities_def quiet_def clock_env_def)
  have j: "job (new_executor job_with_utilities start) = job_with_utilities"
    and t: "trace (new_executor job_with_utilities start) = []"
    by (simp_all add: new_executor_def)
  show ?thesis
    using d g e j t stop_utilities_keeps_table [OF d, of quiet "\<lambda>p. p"] by auto
qed

subsection \<open>The loop of run\<close>

text \<open>
  C4. In every pass of the loop of \<open>run\<close> in which \<open>run_preprocess\<close> returns the
  sentinel 160, the loop ends and \<open>run\<close> returns 0, the error list of the job is the
  one from before the pass, and \<open>run_payload\<close> is not entered: neither its time stamp
  nor a launch is among the calls of the pass.
\<close>

theorem run_stops_on_sentinel:
  assumes "run_preprocess E s = Return 160 s1"
  shows "run_loop E cmd iteration s = Some (Return 0 s1)
       \<and> piloterrorcodes (job s1) = piloterrorcodes (job s)
       \<and> piloterrordiags (job s1) = piloterrordiags (job s)
       \<and> filter is_payload_call (trace s1) = filter is_payload_call (trace s)"
proof -
  have "run_iteration E cmd iteration s = Some (Inl (Return 0 s1))"
    using assms by (simp add: run_iteration_def)
  then have "run_loop E cmd iteration s = Some (Return 0 s1)"
    by (subst run_loop.simps) simp
  then show ?thesis
    using run_preprocess_sentinel [OF assms] by simp
qed

theorem run_stops_on_sentinel_witness:
  "returned (run_preprocess no_more_points (configured (new_job True) start)) = Some 160
   \<and> final_value
        (run_loop no_more_points ''setup.sh; payload.exe'' 1 (configured (new_job True) start))
       = Some (Some 0)
   \<and> final_error_codes
        (run_loop no_more_points ''setup.sh; payload.exe'' 1 (configured (new_job True) start))
       = Some []
   \<and> final_payload_calls
        (run_loop no_more_points ''setup.sh; payload.exe'' 1 (configured (new_job True) start))
       = Some []"
proof -
  define s :: "clock executor" where "s = configured (new_job True) start"
  define s1 where "s1 = state_of (run_preprocess no_more_points s)"
  have h: "run_preprocess no_more_points s = Return 160 s1"
    unfolding s1_def s_def by code_simp
  have e: "piloterrorcodes (job s) = []" "trace s = []"
    by (simp_all add: s_def configured_def new_executor_def new_job_def)
  show ?thesis
    using h e run_stops_on_sentinel [OF h, of "''setup.sh; payload.exe''" 1]
    unfolding s_def by (simp add: final_defs)
qed

text \<open>
  C6. The command builder raises a \<open>PilotException\<close>: \<open>get_payload_command\<close> logs
  "could not define payload command" as fatal and returns the empty command. \<open>run\<close>
  has no test of the command: it goes on, enters \<open>run_payload\<close> and launches the empty
  command, and the job ends in state \<open>finished\<close> with exit code 0.
\<close>

theorem run_launches_empty_command:
  "returned (get_payload_command builder_fails (pre_setup (new_executor (new_job False) start))) = Some []
   \<and> final_value (run builder_fails (new_executor (new_job False) start)) = Some (Some 0)
   \<and> final_payload_calls
        (run builder_fails (new_executor (new_job False) start))
       = Some [Timing PILOT_PRE_PAYLOAD, Launch []]
   \<and> final_job_state
        (run builder_fails (new_executor (new_job False) start)) = Some ''finished''"
proof -
  define s0 :: "clock executor" where "s0 = new_executor (new_job False) start"
  define s1 where "s1 = state_of (get_payload_command builder_fails (pre_setup s0))"
  define s2 where "s2 = post_setup (s1\<lparr>job := (job s1)\<lparr>job_setup := extract_setup []\<rparr>\<rparr>)"
  define s3 where "s3 = state_of (run_preprocess builder_fails s2)"
  define s4 where "s4 = state_of (run_payload builder_fails [] s3)"
  define s5 where "s5 = state_of (the (wait_graceful builder_fails 7 (send_state s4)))"
  define s6 where "s6 = state_of (after_wait builder_fails (Some 0) s5)"
  note defs = s6_def s5_def s4_def s3_def s2_def s1_def s0_def
  have g: "get_payload_command builder_fails (pre_setup s0) = Return [] s1"
    unfolding defs by code_simp
  have pre: "run_preprocess builder_fails s2 = Return 0 s3"
    unfolding defs by code_simp
  have cmd: "[] = (if jobparams (job s2) \<noteq> jobparams (job s3)
                   then replace_py [] (jobparams (job s2)) (jobparams (job s3)) else [])"
    unfolding defs by code_simp
  have pay: "run_payload builder_fails [] s3 = Return (Some 7) s4"
    unfolding defs by code_simp
  have wt: "wait_graceful builder_fails 7 (send_state s4) = Some (Return (Some 0) s5)"
    unfolding defs by code_simp
  have aw: "after_wait builder_fails (Some 0) s5 = Return 0 s6"
    unfolding defs by code_simp
  have hpo: "\<not> is_hpo (job s6)"
    unfolding defs by code_simp
  have "run_loop builder_fails [] 1 s2 = Some (Return 0 s6)"
    using run_loop_step [OF pre cmd pay wt aw, of 1] hpo by simp
  then have r: "run builder_fails s0 = Some (Return 0 s6)"
    by (simp add: run_def g s2_def)
  have t: "filter is_payload_call (trace s6) = [Timing PILOT_PRE_PAYLOAD, Launch []]"
    unfolding defs by code_simp
  have st: "state (job s6) = ''finished''"
    unfolding defs by code_simp
  show ?thesis
    using g r t st unfolding s0_def by (simp add: final_defs)
qed




text \<open>
  The claim C10 reads: whenever the payload succeeds and a postprocess command exists,
  the value returned by \<open>run\<close> is the exit code of the postprocess command. For an HPO
  job the loop goes on after the postprocess command; here that command exits with 5,
  the preprocess command of the next pass exits with the sentinel, and \<open>run\<close> returns 0.
\<close>

theorem run_hpo_return_not_postprocess:
  "final_executed
        (run postprocess_fails (new_executor (new_job True) start))
       = Some [''setup.sh; pre.sh -n'', ''setup.sh; post.sh -c'', ''setup.sh; pre.sh -n'']
   \<and> fst (fst (execute postprocess_fails ''setup.sh; post.sh -c'' (new_job True)
                 \<lparr>now = 601, executed = 1\<rparr>)) = 5
   \<and> final_job_state
        (run postprocess_fails (new_executor (new_job True) start)) = Some ''finished''
   \<and> final_value (run postprocess_fails (new_executor (new_job True) start)) = Some (Some 0)"
proof -
  define c where "c = ''setup.sh; payload.exe''"
  define s0 :: "clock executor" where "s0 = new_executor (new_job True) start"
  define s1 where "s1 = state_of (get_payload_command postprocess_fails (pre_setup s0))"
  define s2 where "s2 = post_setup (s1\<lparr>job := (job s1)\<lparr>job_setup := extract_setup c\<rparr>\<rparr>)"
  define s3 where "s3 = state_of (run_preprocess postprocess_fails s2)"
  define s4 where "s4 = state_of (run_payload postprocess_fails c s3)"
  define s5 where "s5 = state_of (the (wait_graceful postprocess_fails 7 (send_state s4)))"
  define s6 where "s6 = state_of (after_wait postprocess_fails (Some 0) s5)"
  define s7 where "s7 = state_of (run_preprocess postprocess_fails s6)"
  note defs = s7_def s6_def s5_def s4_def s3_def s2_def s1_def s0_def c_def
  have x: "fst (fst (execute postprocess_fails ''setup.sh; post.sh -c'' (new_job True)
                      \<lparr>now = 601, executed = 1\<rparr>)) = 5"
    by code_simp
  have g: "get_payload_command postprocess_fails (pre_setup s0) = Return c s1"
    unfolding defs by code_simp
  have pre: "run_preprocess postprocess_fails s2 = Return 0 s3"
    unfolding defs by code_simp
  have cmd: "c = (if jobparams (job s2) \<noteq> jobparams (job s3)
                  then replace_py c (jobparams (job s2)) (jobparams (job s3)) else c)"
    unfolding defs by code_simp
  have pay: "run_payload postprocess_fails c s3 = Return (Some 7) s4"
    unfolding defs by code_simp
  have wt: "wait_graceful postprocess_fails 7 (send_state s4) = Some (Return (Some 0) s5)"
    unfolding defs by code_simp
  have aw: "after_wait postprocess_fails (Some 0) s5 = Return 5 s6"
    unfolding defs by code_simp
  have hpo: "is_hpo (job s6)"
    unfolding defs by code_simp
  have pre2: "run_preprocess postprocess_fails s6 = Return 160 s7"
    unfolding defs by code_simp
  have "run_loop postprocess_fails c 1 s2 = run_loop postprocess_fails c (1 + 1) s6"
    using run_loop_step [OF pre cmd pay wt aw, of 1] hpo by simp
  also have "\<dots> = Some (Return 0 s7)"
    using run_loop_break [OF pre2, of c "1 + 1"] by simp
  finally have r: "run postprocess_fails s0 = Some (Return 0 s7)"
    by (simp add: run_def g s2_def)
  have t: "executed_commands (trace s7)
           = [''setup.sh; pre.sh -n'', ''setup.sh; post.sh -c'', ''setup.sh; pre.sh -n'']"
    unfolding defs by code_simp
  have st: "state (job s7) = ''finished''"
    unfolding defs by code_simp
  show ?thesis
    using x r t st unfolding s0_def by (simp add: final_defs)
qed

text \<open>
  C10, as the code has it: in a pass of the loop in which the payload exits with 0 and
  an after-payload-finished command exists, the exit code of the pass is overwritten by
  the exit code of the postprocess command, while the state of the job stays
  \<open>finished\<close>, as classified from the exit code of the payload. When the job is not an
  HPO job, \<open>run\<close> returns that exit code; when it is, the loop goes on with the next
  pass, which decides the value returned.
\<close>

theorem run_exit_code_from_postprocess:
  assumes "run_preprocess E s = Return 0 s1"
    and "cmd1 = (if jobparams (job s) \<noteq> jobparams (job s1)
                 then replace_py cmd (jobparams (job s)) (jobparams (job s1)) else cmd)"
    and "run_payload E cmd1 s1 = Return (Some p) s2"
    and "wait_graceful E p (send_state s2) = Some (Return (Some 0) s3)"
    and "utility_after_payload_finished E (set_pilot_state ''finished'' s3) = Return c s4"
    and "c \<noteq> []"
    and "execute_utility_command E (job_setup (job s4) @ c) ''postprocess'' s4 = (pc, s5)"
  shows "\<exists>s'. job s' = job s5 \<and> state (job s') = ''finished''
           \<and> run_loop E cmd iteration s =
               (if is_hpo (job s5) then run_loop E cmd1 (iteration + 1) s'
                else Some (Return pc s'))"
proof -
  obtain s' where a: "after_wait E (Some 0) s3 = Return pc s'" and j: "job s' = job s5"
    and st: "state (job s') = ''finished''"
    using after_wait_postprocess [OF assms(5,6,7)] by blast
  have "run_iteration E cmd iteration s =
          (if is_hpo (job s5) then Some (Inr (cmd1, iteration + 1, s')) else Some (Inl (Return pc s')))"
    using assms(1,2,3,4) a j unfolding run_iteration_def Let_def by simp
  then have "run_loop E cmd iteration s =
               (if is_hpo (job s5) then run_loop E cmd1 (iteration + 1) s' else Some (Return pc s'))"
    by (subst run_loop.simps) simp
  then show ?thesis using j st by blast
qed

theorem run_exit_code_from_postprocess_witness:
  "final_value
     (run_loop postprocess_fails ''setup.sh; payload.exe'' 1 (configured (new_job False) start))
     = Some (Some 5)
   \<and> final_job_state
     (run_loop postprocess_fails ''setup.sh; payload.exe'' 1 (configured (new_job False) start))
     = Some ''finished''"
proof -
  define c where "c = ''setup.sh; payload.exe''"
  define s :: "clock executor" where "s = configured (new_job False) start"
  define s1 where "s1 = state_of (run_preprocess postprocess_fails s)"
  define s2 where "s2 = state_of (run_payload postprocess_fails c s1)"
  define s3 where "s3 = state_of (the (wait_graceful postprocess_fails 7 (send_state s2)))"
  define s4 where "s4 = state_of (utility_after_payload_finished postprocess_fails
                                   (set_pilot_state ''finished'' s3))"
  define s5 where "s5 = snd (execute_utility_command postprocess_fails
                               (job_setup (job s4) @ ''post.sh -c'') ''postprocess'' s4)"
  note defs = s5_def s4_def s3_def s2_def s1_def s_def c_def
  have pre: "run_preprocess postprocess_fails s = Return 0 s1"
    unfolding defs by code_simp
  have cmd: "c = (if jobparams (job s) \<noteq> jobparams (job s1)
                  then replace_py c (jobparams (job s)) (jobparams (job s1)) else c)"
    unfolding defs by code_simp
  have pay: "run_payload postprocess_fails c s1 = Return (Some 7) s2"
    unfolding defs by code_simp
  have wt: "wait_graceful postprocess_fails 7 (send_state s2) = Some (Return (Some 0) s3)"
    unfolding defs by code_simp
  have post: "utility_after_payload_finished postprocess_fails (set_pilot_state ''finished'' s3)
              = Return ''post.sh -c'' s4"
    unfolding defs by code_simp
  have ne: "''post.sh -c'' \<noteq> []"
    by simp
  have ex: "execute_utility_command postprocess_fails (job_setup (job s4) @ ''post.sh -c'')
              ''postprocess'' s4 = (5, s5)"
    unfolding defs by code_simp
  have hpo: "\<not> is_hpo (job s5)"
    unfolding defs by code_simp
  obtain s' where "state (job s') = ''finished''"
    and "run_loop postprocess_fails c 1 s = Some (Return 5 s')"
    using run_exit_code_from_postprocess [OF pre cmd pay wt post ne ex, of 1] hpo by auto
  then show ?thesis
    unfolding s_def c_def by (simp add: final_defs)
qed

end
